theory Spec2Isabelle
  imports Main
begin

section \<open>Python strings\<close>

text \<open>
  A Python \<open>str\<close> is a sequence of Unicode code points, so it is modelled as a list of
  natural numbers. \<open>py\<close> reads an ASCII literal into that type; code points outside ASCII
  (the warning sign of the apology texts, the dash of the prompt) are written as numbers.
\<close>

type_synonym pystr = "nat list"

definition py :: "string \<Rightarrow> pystr" where
  "py s = map of_char s"

definition NL :: pystr where
  "NL = [10]"

text \<open>
  \<open>str.isspace\<close> for one code point: the Unicode white space that \<open>str.strip()\<close> removes
  (U+0009 to U+000D, U+001C to U+0020, U+0085, U+00A0, U+1680, U+2000 to U+200A, U+2028,
  U+2029, U+202F, U+205F, U+3000).
\<close>

definition is_space :: "nat \<Rightarrow> bool" where
  "is_space c =
     ((9 \<le> c \<and> c \<le> 13) \<or> (28 \<le> c \<and> c \<le> 32) \<or> c = 133 \<or> c = 160 \<or> c = 5760
      \<or> (8192 \<le> c \<and> c \<le> 8202) \<or> c = 8232 \<or> c = 8233 \<or> c = 8239 \<or> c = 8287
      \<or> c = 12288)"

definition py_strip :: "pystr \<Rightarrow> pystr" where
  "py_strip s = rev (dropWhile is_space (rev (dropWhile is_space s)))"

text \<open>
  \<open>str.lower()\<close>, one code point at a time. The table is Python's for the code points below
  U+0100 (A to Z, and the Latin-1 capitals U+00C0 to U+00DE without the multiplication
  sign U+00D7); code points above are left as they are.
\<close>

definition lower_cp :: "nat \<Rightarrow> nat" where
  "lower_cp c =
     (if 65 \<le> c \<and> c \<le> 90 then c + 32
      else if 192 \<le> c \<and> c \<le> 222 \<and> c \<noteq> 215 then c + 32
      else c)"

definition py_lower :: "pystr \<Rightarrow> pystr" where
  "py_lower s = map lower_cp s"

definition startswith :: "pystr \<Rightarrow> pystr \<Rightarrow> bool" where
  "startswith s p = (take (length p) s = p)"

definition endswith :: "pystr \<Rightarrow> pystr \<Rightarrow> bool" where
  "endswith s p = (length p \<le> length s \<and> drop (length s - length p) s = p)"

text \<open>\<open>py_in sub s\<close> is Python's \<open>sub in s\<close>: \<open>sub\<close> occurs in \<open>s\<close> as a contiguous run.\<close>

fun py_in :: "pystr \<Rightarrow> pystr \<Rightarrow> bool" where
  "py_in sub [] = (sub = [])"
| "py_in sub (c # cs) = (startswith (c # cs) sub \<or> py_in sub cs)"

text \<open>\<open>s.split(sep)\<close> for a separator of one code point: never an empty list.\<close>

fun py_split :: "nat \<Rightarrow> pystr \<Rightarrow> pystr list" where
  "py_split sep [] = [[]]"
| "py_split sep (c # cs) =
     (if c = sep then [] # py_split sep cs
      else (case py_split sep cs of
              [] \<Rightarrow> [[c]]
            | l # ls \<Rightarrow> (c # l) # ls))"

fun py_join :: "pystr \<Rightarrow> pystr list \<Rightarrow> pystr" where
  "py_join sep [] = []"
| "py_join sep [x] = x"
| "py_join sep (x # y # ys) = x @ sep @ py_join sep (y # ys)"

text \<open>
  \<open>s.replace(old, '')\<close>: every occurrence of \<open>old\<close> is deleted, scanning from the left
  without overlap. With an empty \<open>old\<close> nothing is deleted.
\<close>

function py_delete :: "pystr \<Rightarrow> pystr \<Rightarrow> pystr" where
  "py_delete old [] = []"
| "py_delete old (c # cs) =
     (if old \<noteq> [] \<and> startswith (c # cs) old
      then py_delete old (drop (length old) (c # cs))
      else c # py_delete old cs)"
  by pat_completeness auto
termination
  by (relation "measure (\<lambda>(old, s). length s)") (auto simp: startswith_def)

section \<open>Post-processing of the model's answer (backend/app/main.py)\<close>

definition artifact_phrases :: "pystr list" where
  "artifact_phrases =
     [py ''styling instructions:'', py ''ai:'', py ''user:'', py ''context:'',
      py ''example format'', py ''respond naturally'', py ''choose the best format'']"

text \<open>
  The body of the loop of \<open>clean_ai_response\<close>, for one line: strip it; skip it when it is
  empty; skip it when its lower-cased text contains one of the phrases; otherwise delete
  \<open>*\<close>, \<open>**\<close>, \<open>_\<close> and \<open>+\<close>, in that order, and keep the result.
\<close>

definition strip_markdown :: "pystr \<Rightarrow> pystr" where
  "strip_markdown line =
     py_delete (py ''+'') (py_delete (py ''_'') (py_delete (py ''**'') (py_delete (py ''*'') line)))"

fun clean_lines :: "pystr list \<Rightarrow> pystr list" where
  "clean_lines [] = []"
| "clean_lines (l # ls) =
     (let line = py_strip l in
      if line = [] then clean_lines ls
      else if list_ex (\<lambda>phrase. py_in phrase (py_lower line)) artifact_phrases
      then clean_lines ls
      else strip_markdown line # clean_lines ls)"

definition clean_ai_response :: "pystr \<Rightarrow> pystr" where
  "clean_ai_response response = py_strip (py_join NL (clean_lines (py_split 10 response)))"

section \<open>Link admission of the page crawler (scripts/crawl_site_text.py)\<close>

text \<open>
  Exceptions are values. \<open>Raised msg\<close> stands for an exception raised inside a library
  call, with \<open>str(e) = msg\<close>.
\<close>

datatype py_exn = AttributeError | KeyError pystr | RuntimeError pystr | Raised pystr

text \<open>The fields of \<open>urlparse(url)\<close> that the code reads; \<open>hostname\<close> may be \<open>None\<close>.\<close>

record parse_result =
  scheme :: pystr
  hostname :: "pystr option"
  path :: pystr

definition ROOT_DOMAIN :: pystr where
  "ROOT_DOMAIN = py ''commbank.com.au''"

definition good :: "pystr list" where
  "good = [py ''/personal'', py ''/business'', py ''/content/dam'', py ''/important-info'']"

definition bad :: "pystr list" where
  "bad = [py ''/privacy'', py ''/careers'', py ''/security'', py ''/about-us'', py ''/newsroom'',
          py ''/site-map'', py ''/legal'', py ''/contact'']"

text \<open>
  \<open>any(f(x) for x in xs)\<close>: the elements are evaluated from the left, the first true one
  ends the search, and an exception raised by an element leaves \<open>any\<close>.
\<close>

fun py_any :: "('a \<Rightarrow> py_exn + bool) \<Rightarrow> 'a list \<Rightarrow> py_exn + bool" where
  "py_any f [] = Inr False"
| "py_any f (x # xs) =
     (case f x of
        Inl e \<Rightarrow> Inl e
      | Inr b \<Rightarrow> if b then Inr True else py_any f xs)"

text \<open>
  Line 98 of the crawler reads \<open>any(p in p.path.lower() for p in good)\<close>. The generator
  expression binds its own \<open>p\<close>, which hides the parse result of line 91 inside it: there
  \<open>p\<close> is an element of \<open>good\<close>, a \<open>str\<close>, and reading the attribute \<open>path\<close> of a \<open>str\<close>
  raises \<open>AttributeError\<close>. Line 102 names its variable \<open>b\<close> and reads the parse result.
\<close>

definition str_path :: "pystr \<Rightarrow> py_exn + pystr" where
  "str_path s = Inl AttributeError"

definition in_own_path :: "pystr \<Rightarrow> py_exn + bool" where
  "in_own_path p = (case str_path p of Inl e \<Rightarrow> Inl e | Inr q \<Rightarrow> Inr (py_in p (py_lower q)))"

definition should_follow_parsed :: "parse_result \<Rightarrow> py_exn + bool" where
  "should_follow_parsed p =
     (if \<not> startswith (scheme p) (py ''http'') then Inr False
      else if \<not> (case hostname p of None \<Rightarrow> False | Some h \<Rightarrow> h \<noteq> [] \<and> endswith h ROOT_DOMAIN)
      then Inr False
      else (case py_any in_own_path good of
              Inl e \<Rightarrow> Inl e
            | Inr g \<Rightarrow>
                if \<not> g then Inr False
                else (case py_any (\<lambda>b. Inr (py_in b (py_lower (path p)))) bad of
                        Inl e \<Rightarrow> Inl e
                      | Inr b \<Rightarrow> if b then Inr False else Inr True)))"

text \<open>\<open>urlparse\<close> is the standard library's; it raises \<open>ValueError\<close> on some malformed hosts.\<close>

definition should_follow :: "(pystr \<Rightarrow> py_exn + parse_result) \<Rightarrow> pystr \<Rightarrow> py_exn + bool" where
  "should_follow urlparse url =
     (case urlparse url of Inl e \<Rightarrow> Inl e | Inr p \<Rightarrow> should_follow_parsed p)"

text \<open>
  The link loop of \<open>crawl\<close> (lines 143 to 151) over the \<open>href\<close>s of one page. The queue is
  changed in place, so what was appended before an exception stays; the exception leaves
  the loop and is caught by the \<open>except\<close> of line 153. The result is the queue and the
  exception, if any.
\<close>

fun enqueue_links ::
  "(pystr \<Rightarrow> py_exn + parse_result) \<Rightarrow> (pystr \<Rightarrow> pystr \<Rightarrow> py_exn + pystr) \<Rightarrow> pystr \<Rightarrow>
   pystr list \<Rightarrow> pystr set \<Rightarrow> nat \<Rightarrow> pystr list \<Rightarrow> pystr list \<times> py_exn option" where
  "enqueue_links urlparse urljoin url [] visited links_added q = (q, None)"
| "enqueue_links urlparse urljoin url (a # as) visited links_added q =
     (if links_added \<ge> 20 then (q, None)
      else (case urljoin url (py_strip a) of
              Inl e \<Rightarrow> (q, Some e)
            | Inr next_url \<Rightarrow>
                (case should_follow urlparse next_url of
                   Inl e \<Rightarrow> (q, Some e)
                 | Inr ok \<Rightarrow>
                     if ok \<and> next_url \<notin> visited \<and> next_url \<notin> set q
                     then enqueue_links urlparse urljoin url as visited (links_added + 1)
                            (q @ [next_url])
                     else enqueue_links urlparse urljoin url as visited links_added q)))"

section \<open>Content store of the PDF downloader (scripts/download_pdfs.py)\<close>

text \<open>
  Bytes are lists of numbers below 256. The library functions the downloader calls are
  parameters: \<open>sha256_bytes b\<close> is \<open>hashlib.sha256(b).hexdigest()\<close>, \<open>encode s\<close> is
  \<open>s.encode()\<close>, \<open>url_path u\<close> is \<open>urlparse(u).path\<close> and \<open>clean_text\<close> is the HTML-to-text
  step of the page crawler.
\<close>

type_synonym bytes = "nat list"

record lib =
  sha256_bytes :: "bytes \<Rightarrow> pystr"
  encode :: "pystr \<Rightarrow> bytes"
  url_path :: "pystr \<Rightarrow> pystr"
  clean_text :: "pystr \<Rightarrow> pystr"

definition MAX_FILE_SIZE :: nat where
  "MAX_FILE_SIZE = 100 * 1024 * 1024"

definition RETRIES :: nat where
  "RETRIES = 2"

text \<open>\<open>str(n)\<close> for an integer: its decimal digits, with a minus sign when negative.\<close>

function str_nat :: "nat \<Rightarrow> pystr" where
  "str_nat n = (if n < 10 then [48 + n] else str_nat (n div 10) @ [48 + n mod 10])"
  by pat_completeness auto
termination
  by (relation "measure (\<lambda>n. n)") auto

definition str_int :: "int \<Rightarrow> pystr" where
  "str_int i = (if i < 0 then 45 # str_nat (nat (- i)) else str_nat (nat i))"

text \<open>
  The dictionary that \<open>download_pdf\<close> passes to \<open>append_manifest_row\<close>, and the cells that
  \<open>csv.DictWriter\<close> writes for it, in the order of the field names.
\<close>

record manifest_row =
  source_url :: pystr
  pdf_url :: pystr
  saved_filename :: pystr
  filesize_bytes :: nat
  sha256 :: pystr
  http_status :: int
  title_text :: pystr
  timestamp :: int

definition FIELDS :: "pystr list" where
  "FIELDS =
     [py ''source_url'', py ''pdf_url'', py ''saved_filename'', py ''filesize_bytes'',
      py ''sha256'', py ''http_status'', py ''title_text'', py ''timestamp'']"

definition row_cells :: "manifest_row \<Rightarrow> pystr list" where
  "row_cells r =
     [source_url r, pdf_url r, saved_filename r, str_nat (filesize_bytes r), sha256 r,
      str_int (http_status r), title_text r, str_int (timestamp r)]"

text \<open>
  The directory \<open>SAVE_DIR\<close>. The manifest is \<open>None\<close> while \<open>manifest.csv\<close> does not exist;
  otherwise it is the lines of the file, each the list of its cells (an empty list is a
  blank line). \<open>written\<close> holds every write of a PDF file, oldest first, as (name, content).
  File operations succeed.
\<close>

record pdf_store =
  manifest :: "pystr list list option"
  written :: "(pystr \<times> bytes) list"

definition basename :: "pystr \<Rightarrow> pystr" where
  "basename p = rev (takeWhile (\<lambda>c. c \<noteq> 47) (rev p))"

definition safe_filename_from_url :: "lib \<Rightarrow> pystr \<Rightarrow> pystr" where
  "safe_filename_from_url L url =
     (let name = basename (url_path L url);
          name = (if name = [] \<or> \<not> endswith (py_lower name) (py ''.pdf'')
                  then take 8 (sha256_bytes L (encode L url)) @ py ''.pdf''
                  else name)
      in takeWhile (\<lambda>c. c \<noteq> 35) (takeWhile (\<lambda>c. c \<noteq> 63) name))"

text \<open>
  \<open>r.get(key)\<close> for a row \<open>r\<close> of \<open>csv.DictReader\<close>: the reader takes the first line of the
  file as the field names and pairs them with the cells of the row. A name that occurs
  twice keeps its last cell, and a name beyond the end of a short row gives \<open>None\<close>.
\<close>

fun dict_get_from :: "pystr option \<Rightarrow> pystr list \<Rightarrow> pystr list \<Rightarrow> pystr \<Rightarrow> pystr option" where
  "dict_get_from found [] cells key = found"
| "dict_get_from found (f # fs) [] key = dict_get_from (if f = key then None else found) fs [] key"
| "dict_get_from found (f # fs) (c # cs) key =
     dict_get_from (if f = key then Some c else found) fs cs key"

definition dict_get :: "pystr list \<Rightarrow> pystr list \<Rightarrow> pystr \<Rightarrow> pystr option" where
  "dict_get fieldnames cells key = dict_get_from None fieldnames cells key"

text \<open>The loop of \<open>manifest_has_sha\<close> over the lines after the first; blank lines are skipped.\<close>

fun first_with_sha :: "pystr list \<Rightarrow> pystr \<Rightarrow> pystr list list \<Rightarrow> pystr option" where
  "first_with_sha fieldnames sha [] = None"
| "first_with_sha fieldnames sha (r # rs) =
     (if r = [] then first_with_sha fieldnames sha rs
      else if dict_get fieldnames r (py ''sha256'') = Some sha
      then dict_get fieldnames r (py ''saved_filename'')
      else first_with_sha fieldnames sha rs)"

definition manifest_has_sha :: "pystr \<Rightarrow> pdf_store \<Rightarrow> pystr option" where
  "manifest_has_sha sha st =
     (case manifest st of
        None \<Rightarrow> None
      | Some [] \<Rightarrow> None
      | Some (fieldnames # lines) \<Rightarrow> first_with_sha fieldnames sha lines)"

text \<open>
  \<open>append_manifest_row\<close> writes the header only when the file does not exist yet
  (\<open>write_header = not os.path.exists(MANIFEST)\<close>), then the row.
\<close>

definition append_manifest_row :: "manifest_row \<Rightarrow> pdf_store \<Rightarrow> pdf_store" where
  "append_manifest_row row st =
     st\<lparr>manifest :=
          Some (case manifest st of
                  None \<Rightarrow> [FIELDS, row_cells row]
                | Some lines \<Rightarrow> lines @ [row_cells row])\<rparr>"

text \<open>
  The replies of the network. A \<open>HEAD\<close> request raises or gives a status and a
  \<open>Content-Length\<close> header, which is absent or empty (\<open>NoLength\<close>), not a number
  (\<open>BadLength\<close>: \<open>int\<close> raises, inside the \<open>try\<close>) or a number. A \<open>GET\<close> request raises or
  gives a status and a stream of chunks that may raise while it is read.
\<close>

datatype content_length = NoLength | BadLength | Length int

datatype head_reply = HeadRaised | Head int content_length

datatype stream_item = Chunk bytes | StreamRaised

datatype get_reply = GetRaised | Get int "stream_item list"

definition head_allows :: "head_reply \<Rightarrow> bool" where
  "head_allows h =
     (case h of
        HeadRaised \<Rightarrow> True
      | Head status cl \<Rightarrow>
          if status \<ge> 400 then False
          else (case cl of
                  Length n \<Rightarrow> \<not> n > int MAX_FILE_SIZE
                | _ \<Rightarrow> True))"

text \<open>
  One attempt ends in an exception (\<open>Retry\<close>: the loop goes on), in \<open>return False\<close>
  (\<open>GiveUp\<close>) or with a value.
\<close>

datatype 'a attempt = Retry | GiveUp | Done 'a

fun read_stream :: "stream_item list \<Rightarrow> bytes list \<Rightarrow> nat \<Rightarrow> bytes attempt" where
  "read_stream [] chunks total' = Done (concat chunks)"
| "read_stream (StreamRaised # rest) chunks total' = Retry"
| "read_stream (Chunk c # rest) chunks total' =
     (if c \<noteq> [] then
        (if total' + length c > MAX_FILE_SIZE then GiveUp
         else read_stream rest (chunks @ [c]) (total' + length c))
      else read_stream rest chunks total')"

definition fetch_body :: "get_reply \<Rightarrow> bytes attempt" where
  "fetch_body g =
     (case g of
        GetRaised \<Rightarrow> Retry
      | Get status items \<Rightarrow> if status \<noteq> 200 then GiveUp else read_stream items [] 0)"

text \<open>Lines 171 to 202: what \<open>download_pdf\<close> does with the bytes it has read.\<close>

definition store_pdf :: "lib \<Rightarrow> pystr \<Rightarrow> pystr \<Rightarrow> int \<Rightarrow> bytes \<Rightarrow> pdf_store \<Rightarrow> pdf_store" where
  "store_pdf L url source_page now data st =
     (let sha = sha256_bytes L data;
          existing = manifest_has_sha sha st
      in if existing \<noteq> None \<and> existing \<noteq> Some []
         then append_manifest_row
                \<lparr>source_url = source_page, pdf_url = url,
                 saved_filename = (case existing of None \<Rightarrow> [] | Some name \<Rightarrow> name),
                 filesize_bytes = length data, sha256 = sha, http_status = 200,
                 title_text = [], timestamp = now\<rparr> st
         else (let filename = safe_filename_from_url L url;
                   save_name = take 8 sha @ py ''_'' @ filename
               in append_manifest_row
                    \<lparr>source_url = source_page, pdf_url = url, saved_filename = save_name,
                     filesize_bytes = length data, sha256 = sha, http_status = 200,
                     title_text = [], timestamp = now\<rparr>
                    (st\<lparr>written := written st @ [(save_name, data)]\<rparr>)))"

fun attempts :: "lib \<Rightarrow> pystr \<Rightarrow> pystr \<Rightarrow> int \<Rightarrow> get_reply list \<Rightarrow> pdf_store \<Rightarrow> bool \<times> pdf_store" where
  "attempts L url source_page now [] st = (False, st)"
| "attempts L url source_page now (g # gs) st =
     (case fetch_body g of
        Retry \<Rightarrow> attempts L url source_page now gs st
      | GiveUp \<Rightarrow> (False, st)
      | Done data \<Rightarrow> (True, store_pdf L url source_page now data st))"

text \<open>
  \<open>download_pdf\<close>: \<open>head\<close> is the reply to the \<open>HEAD\<close> request, \<open>gets n\<close> the reply to the
  \<open>GET\<close> request of attempt \<open>n\<close> (1 and 2), \<open>now\<close> the clock.
\<close>

definition download_pdf ::
  "lib \<Rightarrow> head_reply \<Rightarrow> (nat \<Rightarrow> get_reply) \<Rightarrow> int \<Rightarrow> pystr \<Rightarrow> pystr \<Rightarrow> pdf_store \<Rightarrow> bool \<times> pdf_store" where
  "download_pdf L head gets now url source_page st =
     (if \<not> head_allows head then (False, st)
      else attempts L url source_page now (map gets [1 ..< RETRIES + 1]) st)"

text \<open>
  The bytes that \<open>download_pdf\<close> reads, if it gets that far: the \<open>HEAD\<close> reply lets the
  download go on, and the first attempt that ends without an exception ends with a body.
\<close>

fun fetched :: "get_reply list \<Rightarrow> bytes option" where
  "fetched [] = None"
| "fetched (g # gs) =
     (case fetch_body g of Retry \<Rightarrow> fetched gs | GiveUp \<Rightarrow> None | Done data \<Rightarrow> Some data)"

definition downloaded :: "head_reply \<Rightarrow> (nat \<Rightarrow> get_reply) \<Rightarrow> bytes option" where
  "downloaded head gets =
     (if head_allows head then fetched (map gets [1 ..< RETRIES + 1]) else None)"




section \<open>Page store of the page crawler (scripts/crawl_site_text.py)\<close>







section \<open>Documents and the index build (scripts/embed.py)\<close>

text \<open>A metadata dictionary maps keys to strings or integers.\<close>

datatype meta_value = MStr pystr | MInt int

type_synonym metadata = "pystr \<rightharpoonup> meta_value"

record document =
  page_content :: pystr
  metadata :: metadata

text \<open>
  \<open>CustomTextLoader.load\<close> on the content of a text file: when the first line starts with
  \<open>http\<close> it is the URL and the text is the rest; the result is always one document.
\<close>

definition custom_text_load :: "pystr \<Rightarrow> pystr \<Rightarrow> document list" where
  "custom_text_load file_name content =
     (let (url, text) =
            (case py_split 10 content of
               [] \<Rightarrow> (file_name, content)
             | first # rest \<Rightarrow>
                 if startswith first (py ''http'') then (first, py_join NL rest)
                 else (file_name, content))
      in [\<lparr>page_content = text,
           metadata = [py ''source'' \<mapsto> MStr file_name, py ''url'' \<mapsto> MStr url,
                       py ''type'' \<mapsto> MStr (py ''webpage'')]\<rparr>])"

text \<open>
  The two data directories: every PDF under \<open>DATA_DIR\<close> with what
  \<open>PyPDFLoader(path).load()\<close> gives for it (an exception or its pages), and every text file
  under \<open>SITE_TEXT_DIR\<close> with what reading it gives (an exception or its content).
\<close>

record corpus =
  pdf_files :: "(pystr \<times> (py_exn + document list)) list"
  txt_files :: "(pystr \<times> (py_exn + pystr)) list"

definition tag_pdf_page :: "pystr \<Rightarrow> document \<Rightarrow> document" where
  "tag_pdf_page name doc =
     doc\<lparr>metadata :=
           (metadata doc)
             (py ''source'' \<mapsto> MStr name,
              py ''type'' \<mapsto> MStr (py ''pdf''),
              py ''page'' \<mapsto> (case metadata doc (py ''page'') of None \<Rightarrow> MInt 0 | Some v \<Rightarrow> v))\<rparr>"

definition load_pdf :: "pystr \<times> (py_exn + document list) \<Rightarrow> document list" where
  "load_pdf f = (case f of (name, Inl e) \<Rightarrow> [] | (name, Inr pdf_docs) \<Rightarrow> map (tag_pdf_page name) pdf_docs)"

definition load_txt :: "pystr \<times> (py_exn + pystr) \<Rightarrow> document list" where
  "load_txt f = (case f of (name, Inl e) \<Rightarrow> [] | (name, Inr content) \<Rightarrow> custom_text_load name content)"

definition load_documents :: "corpus \<Rightarrow> document list" where
  "load_documents c = concat (map load_pdf (pdf_files c)) @ concat (map load_txt (txt_files c))"

text \<open>
  The library calls of the build and of the service are parameters: the text splitter
  configured in \<open>chunk_documents\<close>, the constructor of the embeddings object (model name,
  and whether \<open>normalize_embeddings\<close> is set), and the four operations of the vector store.
  \<open>'e\<close> is the embeddings object, \<open>'vs\<close> the vector store in memory, \<open>'i\<close> what
  \<open>save_local\<close> leaves in the index directory.
\<close>

record ('e, 'vs, 'i) rag_lib =
  split_documents :: "document list \<Rightarrow> document list"
  HuggingFaceEmbeddings :: "pystr \<Rightarrow> bool \<Rightarrow> py_exn + 'e"
  from_documents :: "document list \<Rightarrow> 'e \<Rightarrow> py_exn + 'vs"
  save_local :: "'vs \<Rightarrow> 'i"
  load_local :: "'i option \<Rightarrow> 'e \<Rightarrow> py_exn + 'vs"
  similarity_search :: "'vs \<Rightarrow> pystr \<Rightarrow> nat \<Rightarrow> py_exn + document list"

definition chunk_documents :: "('e, 'vs, 'i) rag_lib \<Rightarrow> document list \<Rightarrow> document list" where
  "chunk_documents R documents = split_documents R documents"

definition BUILD_EMBEDDING_MODEL :: pystr where
  "BUILD_EMBEDDING_MODEL = py ''sentence-transformers/all-MiniLM-L6-v2''"

text \<open>
  The index directory is \<open>None\<close> while it does not exist, \<open>Some None\<close> when it exists and
  holds no index, \<open>Some (Some i)\<close> when it holds the saved index \<open>i\<close>.

  \<open>create_embeddings\<close> ends with an exception, or returns: \<open>Aborted msg\<close> after
  \<open>logger.error(msg)\<close>, \<open>Completed\<close> at its end.
\<close>

datatype build_outcome = Aborted pystr | Completed

definition has_source :: "document \<Rightarrow> bool" where
  "has_source doc = (metadata doc (py ''source'') \<noteq> None)"

definition create_embeddings ::
  "('e, 'vs, 'i) rag_lib \<Rightarrow> corpus \<Rightarrow> 'i option option \<Rightarrow> (py_exn + build_outcome) \<times> 'i option option" where
  "create_embeddings R c dir =
     (let dir1 = (case dir of None \<Rightarrow> Some None | Some content \<Rightarrow> Some content);
          documents = load_documents c
      in if documents = [] then (Inr (Aborted (py ''No documents found to process!'')), dir1)
         else
           (let chunks = chunk_documents R documents
            in case HuggingFaceEmbeddings R BUILD_EMBEDDING_MODEL True of
                 Inl e \<Rightarrow> (Inl e, dir1)
               | Inr embeddings \<Rightarrow>
                   (case from_documents R chunks embeddings of
                      Inl e \<Rightarrow> (Inl e, dir1)
                    | Inr vectorstore \<Rightarrow>
                        (let dir2 = Some (Some (save_local R vectorstore))
                         in case similarity_search R vectorstore
                                   (py ''What are the fees for CBA credit cards?'') 3 of
                              Inl e \<Rightarrow> (Inl e, dir2)
                            | Inr results \<Rightarrow>
                                if list_all has_source results then (Inr Completed, dir2)
                                else (Inl (KeyError (py ''source'')), dir2)))))"

section \<open>The chat service (backend/app/main.py)\<close>

text \<open>
  In the source, line 73 and line 83 are indented against their blocks; they are read
  here as statements of the \<open>if\<close> bodies they stand in.
\<close>

record config =
  EMBEDDING_MODEL :: pystr
  INDEX_DIR :: pystr
  GROQ_API_KEY :: "pystr option"

record turn =
  user :: pystr
  ai :: pystr

text \<open>
  The module's globals \<open>_embeddings\<close>, \<open>_vectorstore\<close> and \<open>_conversations\<close>, and the
  prompts passed to \<open>groq_client.invoke\<close> so far.
\<close>

record ('e, 'vs) service =
  g_embeddings :: "'e option"
  g_vectorstore :: "'vs option"
  g_conversations :: "pystr \<rightharpoonup> turn list"
  invoked :: "pystr list"

definition initial_service :: "('e, 'vs) service" where
  "initial_service =
     \<lparr>g_embeddings = None, g_vectorstore = None, g_conversations = Map.empty, invoked = []\<rparr>"

text \<open>
  What one request meets outside the process: the library, the index directory, and the
  reply of the language model to a prompt (an exception, or \<open>response.content\<close>).
\<close>

record ('e, 'vs, 'i) world =
  rag :: "('e, 'vs, 'i) rag_lib"
  index_dir :: "'i option option"
  groq_invoke :: "pystr \<Rightarrow> py_exn + pystr"

record chat_request =
  conversation_id :: pystr
  query :: pystr

record chat_response =
  answer :: pystr
  sources :: "metadata list"

fun exn_str :: "py_exn \<Rightarrow> pystr" where
  "exn_str AttributeError = [39] @ py ''str'' @ [39] @ py '' object has no attribute '' @ [39] @ py ''path'' @ [39]"
| "exn_str (KeyError k) = [39] @ k @ [39]"
| "exn_str (RuntimeError msg) = msg"
| "exn_str (Raised msg) = msg"

definition get_embeddings ::
  "config \<Rightarrow> ('e, 'vs, 'i) world \<Rightarrow> ('e, 'vs) service \<Rightarrow> (py_exn + 'e) \<times> ('e, 'vs) service" where
  "get_embeddings cfg W s =
     (case g_embeddings s of
        Some e \<Rightarrow> (Inr e, s)
      | None \<Rightarrow>
          (case HuggingFaceEmbeddings (rag W) (EMBEDDING_MODEL cfg) False of
             Inl x \<Rightarrow> (Inl x, s)
           | Inr e \<Rightarrow> (Inr e, s\<lparr>g_embeddings := Some e\<rparr>)))"

definition get_vectorstore ::
  "config \<Rightarrow> ('e, 'vs, 'i) world \<Rightarrow> ('e, 'vs) service \<Rightarrow> (py_exn + 'vs) \<times> ('e, 'vs) service" where
  "get_vectorstore cfg W s =
     (case g_vectorstore s of
        Some vs \<Rightarrow> (Inr vs, s)
      | None \<Rightarrow>
          (case index_dir W of
             None \<Rightarrow>
               (Inl (RuntimeError ([10060] @ py '' Index directory not found: '' @ INDEX_DIR cfg)), s)
           | Some content \<Rightarrow>
               (case get_embeddings cfg W s of
                  (Inl x, s1) \<Rightarrow>
                    (Inl (RuntimeError (py ''Failed to load FAISS index: '' @ exn_str x)), s1)
                | (Inr e, s1) \<Rightarrow>
                    (case load_local (rag W) content e of
                       Inl x \<Rightarrow>
                         (Inl (RuntimeError (py ''Failed to load FAISS index: '' @ exn_str x)), s1)
                     | Inr vs \<Rightarrow> (Inr vs, s1\<lparr>g_vectorstore := Some vs\<rparr>)))))"

definition history :: "('e, 'vs) service \<Rightarrow> pystr \<Rightarrow> turn list" where
  "history s cid = (case g_conversations s cid of None \<Rightarrow> [] | Some turns \<Rightarrow> turns)"

definition render_turn :: "turn \<Rightarrow> pystr" where
  "render_turn t = py ''User: '' @ user t @ NL @ py ''AI: '' @ ai t"

definition instructions :: pystr where
  "instructions =
     py ''AI: You are a helpful CBA product assistant. Provide clear, structured responses about CBA products and services.'' @ NL @ NL
     @ py ''IMPORTANT FORMATTING RULES:'' @ NL
     @ py ''- Format responses naturally with paragraphs, bullet points, or numbered lists when it improves clarity.'' @ NL
     @ py ''- Avoid any Markdown symbols such as *, **, _, or +.'' @ NL
     @ py ''- Present product names followed by a dash ('' @ [8211] @ py '') and description.'' @ NL
     @ py ''- Use a new line for each product or concept.'' @ NL
     @ py ''- Be concise and informative.'' @ NL
     @ py ''- Only mention products that are actually available based on the provided context.'' @ NL
     @ py ''- Respond in clean, readable plain text.'' @ NL"

definition format_conversation_history :: "('e, 'vs) service \<Rightarrow> pystr \<Rightarrow> pystr \<Rightarrow> pystr \<Rightarrow> pystr" where
  "format_conversation_history s cid q context =
     (let history_text = py_join NL (map render_turn (history s cid))
      in history_text @ NL
         @ py ''User: '' @ q @ NL @ NL
         @ py ''Context (from CBA documents):'' @ NL @ context @ NL @ NL
         @ instructions)"

definition NO_KEY_APOLOGY :: pystr where
  "NO_KEY_APOLOGY =
     [9888, 65039] @ py '' No GROQ_API_KEY found. Please set it in your environment variables.''"

definition TROUBLE_APOLOGY :: pystr where
  "TROUBLE_APOLOGY =
     [9888, 65039] @ py '' I'' @ [39] @ py ''m having trouble generating a response. Please try again later.''"

definition generate_ai_response ::
  "config \<Rightarrow> ('e, 'vs, 'i) world \<Rightarrow> ('e, 'vs) service \<Rightarrow> pystr \<Rightarrow> pystr \<Rightarrow> pystr \<Rightarrow>
   pystr \<times> ('e, 'vs) service" where
  "generate_ai_response cfg W s cid q context =
     (if GROQ_API_KEY cfg = None \<or> GROQ_API_KEY cfg = Some [] then (NO_KEY_APOLOGY, s)
      else
        (let prompt = format_conversation_history s cid q context;
             s1 = s\<lparr>invoked := invoked s @ [prompt]\<rparr>
         in case groq_invoke W prompt of
              Inl e \<Rightarrow> (TROUBLE_APOLOGY, s1)
            | Inr content \<Rightarrow> (clean_ai_response (py_strip content), s1)))"

definition chat ::
  "config \<Rightarrow> ('e, 'vs, 'i) world \<Rightarrow> chat_request \<Rightarrow> ('e, 'vs) service \<Rightarrow>
   (py_exn + chat_response) \<times> ('e, 'vs) service" where
  "chat cfg W request s =
     (case get_vectorstore cfg W s of
        (Inl x, s1) \<Rightarrow> (Inl x, s1)
      | (Inr vectorstore, s1) \<Rightarrow>
          (case similarity_search (rag W) vectorstore (query request) 8 of
             Inl x \<Rightarrow> (Inl x, s1)
           | Inr docs \<Rightarrow>
               (let context = py_join NL (map page_content docs);
                    srcs = map metadata docs
                in case generate_ai_response cfg W s1 (conversation_id request) (query request)
                          context of
                     (ans, s2) \<Rightarrow>
                       (Inr \<lparr>answer = ans, sources = srcs\<rparr>,
                        s2\<lparr>g_conversations :=
                             (g_conversations s2)
                               (conversation_id request \<mapsto>
                                  history s2 (conversation_id request)
                                  @ [\<lparr>user = query request, ai = ans\<rparr>])\<rparr>))))"

text \<open>Requests served one after the other, each in its own world; the outcomes in order.\<close>

fun serve ::
  "config \<Rightarrow> (('e, 'vs, 'i) world \<times> chat_request) list \<Rightarrow> ('e, 'vs) service \<Rightarrow>
   (py_exn + chat_response) list \<times> ('e, 'vs) service" where
  "serve cfg [] s = ([], s)"
| "serve cfg ((W, request) # rest) s =
     (case chat cfg W request s of
        (out, s1) \<Rightarrow> (case serve cfg rest s1 of (outs, s2) \<Rightarrow> (out # outs, s2)))"

text \<open>
  The turns of the answered requests on one conversation, in the order of the requests:
  \<open>reqs\<close> are the requests and \<open>outs\<close> their outcomes.
\<close>

fun answered :: "pystr \<Rightarrow> chat_request list \<Rightarrow> (py_exn + chat_response) list \<Rightarrow> turn list" where
  "answered cid (r # rs) (Inr resp # outs) =
     (if conversation_id r = cid then [\<lparr>user = query r, ai = answer resp\<rparr>] else [])
     @ answered cid rs outs"
| "answered cid (r # rs) (Inl e # outs) = answered cid rs outs"
| "answered cid rs outs = []"

section \<open>The vector store of the library\<close>

text \<open>
  The operations of the library's FAISS wrapper, as far as the build and the service use
  them. A vector is a list of numbers, and its length is its dimension. A store in memory
  holds the embeddings object it was given, the dimension of its index, the vectors and
  the documents. \<open>from_documents\<close> embeds every chunk with the embeddings object, fails on
  an empty list, and makes an index of the dimension of the first vector; \<open>save_local\<close>
  writes the index and the documents (\<open>index.faiss\<close> and \<open>index.pkl\<close>) and nothing of the
  embeddings object; \<open>load_local\<close> reads them back and takes the embeddings object from
  its caller; \<open>similarity_search\<close> embeds the query with the store's embeddings object,
  fails when the query vector has another dimension than the index, and otherwise returns
  the documents at the positions that the nearest-neighbour search gives. The embedding
  function \<open>embed_text\<close>, the text splitter and the search \<open>nearest\<close> are parameters; an
  embeddings object is the model name and the normalisation flag.
\<close>

record 'a faiss_store =
  embedding_function :: "pystr \<times> bool"
  dimension :: nat
  vectors :: "'a list list"
  docstore :: "document list"

definition faiss_search ::
  "(pystr \<times> bool \<Rightarrow> pystr \<Rightarrow> 'a list) \<Rightarrow> ('a list \<Rightarrow> 'a list list \<Rightarrow> nat \<Rightarrow> nat list) \<Rightarrow>
   'a faiss_store \<Rightarrow> pystr \<Rightarrow> nat \<Rightarrow> py_exn + document list" where
  "faiss_search embed_text nearest vs q k =
     (let v = embed_text (embedding_function vs) q
      in if length v \<noteq> dimension vs then Inl (Raised (py ''AssertionError''))
         else Inr (map (\<lambda>i. docstore vs ! i)
                     (filter (\<lambda>i. i < length (docstore vs)) (nearest v (vectors vs) k))))"

definition faiss_from_documents ::
  "(pystr \<times> bool \<Rightarrow> pystr \<Rightarrow> 'a list) \<Rightarrow> document list \<Rightarrow> pystr \<times> bool \<Rightarrow> py_exn + 'a faiss_store" where
  "faiss_from_documents embed_text chunks e =
     (case map (\<lambda>d. embed_text e (page_content d)) chunks of
        [] \<Rightarrow> Inl (Raised (py ''list index out of range''))
      | v # vs \<Rightarrow>
          if list_all (\<lambda>u. length u = length v) vs
          then Inr \<lparr>embedding_function = e, dimension = length v, vectors = v # vs,
                    docstore = chunks\<rparr>
          else Inl (Raised (py ''inhomogeneous shape'')))"

definition faiss_lib ::
  "(document list \<Rightarrow> document list) \<Rightarrow> (pystr \<times> bool \<Rightarrow> pystr \<Rightarrow> 'a list) \<Rightarrow>
   ('a list \<Rightarrow> 'a list list \<Rightarrow> nat \<Rightarrow> nat list) \<Rightarrow>
   (pystr \<times> bool, 'a faiss_store, nat \<times> 'a list list \<times> document list) rag_lib" where
  "faiss_lib splitter embed_text nearest =
     \<lparr>split_documents = splitter,
      HuggingFaceEmbeddings = (\<lambda>model_name normalize. Inr (model_name, normalize)),
      from_documents = faiss_from_documents embed_text,
      save_local = (\<lambda>vs. (dimension vs, vectors vs, docstore vs)),
      load_local =
        (\<lambda>content e.
           case content of
             None \<Rightarrow> Inl (Raised (py ''could not open index.faiss''))
           | Some (d, vecs, docs) \<Rightarrow>
               Inr \<lparr>embedding_function = e, dimension = d, vectors = vecs, docstore = docs\<rparr>),
      similarity_search = faiss_search embed_text nearest\<rparr>"

section \<open>Inputs of the examples\<close>

text \<open>
  The library functions at the inputs of the examples below: SHA-256 at the three byte
  strings that are hashed there (the digests are those of \<open>hashlib\<close>), \<open>encode\<close> on ASCII
  text, the path of a URL that starts with \<open>https://www.commbank.com.au\<close> and has no query,
  and \<open>clean_text\<close> on a body without markup. The text splitter of the examples is the
  library's on documents shorter than one chunk: the text is stripped, and a document
  without text gives no chunk. The embedding of the examples gives vectors of 768 numbers
  for \<open>all-mpnet-base-v2\<close> and of 384 numbers for the other models, as the models
  \<open>all-MiniLM-L6-v2\<close> and \<open>all-MiniLM-L12-v2\<close> do.
\<close>

definition example_sha256 :: "bytes \<Rightarrow> pystr" where
  "example_sha256 b =
     (if b = py ''https://www.commbank.com.au/personal.html''
      then py ''332477c3672172596ee7a27af7ef1c44fde55ff1695b9faef4fbab5771dcf2a3''
      else if b = py ''https://www.commbank.com.au/business.html''
      then py ''fffb00dc61644f40e523683e77415ced0ac81d1f9ab9bf2a44864747da7f9e5a''
      else if b = py ''%PDF-1.4''
      then py ''e16fa5d9b51928755db85b917f0297babaf22c7a47e97d9212adab56e61ba04e''
      else [])"

definition example_lib :: lib where
  "example_lib =
     \<lparr>sha256_bytes = example_sha256, encode = (\<lambda>s. s), url_path = drop 27,
      clean_text = (\<lambda>html. html)\<rparr>"




definition empty_manifest_file :: pdf_store where
  "empty_manifest_file = \<lparr>manifest = Some [], written = []\<rparr>"

definition example_corpus :: corpus where
  "example_corpus =
     \<lparr>pdf_files = [],
      txt_files = [(py ''332477c367217259.txt'',
                    Inr (py ''https://www.commbank.com.au/personal.html'' @ NL @ NL
                         @ py ''Everyday Account''))]\<rparr>"



definition example_splitter :: "document list \<Rightarrow> document list" where
  "example_splitter docs =
     filter (\<lambda>d. page_content d \<noteq> [])
       (map (\<lambda>d. d\<lparr>page_content := py_strip (page_content d)\<rparr>) docs)"

definition example_dim :: "pystr \<Rightarrow> nat" where
  "example_dim model = (if model = py ''sentence-transformers/all-mpnet-base-v2'' then 768 else 384)"

definition example_embed :: "pystr \<times> bool \<Rightarrow> pystr \<Rightarrow> nat list" where
  "example_embed e t = replicate (example_dim (fst e)) (length t)"

definition example_nearest :: "nat list \<Rightarrow> nat list list \<Rightarrow> nat \<Rightarrow> nat list" where
  "example_nearest q vs k = take k [0 ..< length vs]"

definition example_faiss ::
  "(pystr \<times> bool, nat faiss_store, nat \<times> nat list list \<times> document list) rag_lib" where
  "example_faiss = faiss_lib example_splitter example_embed example_nearest"

definition example_world ::
  "(pystr \<times> bool, nat faiss_store, nat \<times> nat list list \<times> document list) world" where
  "example_world =
     \<lparr>rag = example_faiss,
      index_dir = snd (create_embeddings example_faiss example_corpus None),
      groq_invoke = (\<lambda>prompt. Inl (Raised (py ''connection error'')))\<rparr>"

definition example_config :: config where
  "example_config =
     \<lparr>EMBEDDING_MODEL = py ''sentence-transformers/all-MiniLM-L12-v2'', INDEX_DIR = py ''index'',
      GROQ_API_KEY = None\<rparr>"

definition mpnet_config :: config where
  "mpnet_config = example_config\<lparr>EMBEDDING_MODEL := py ''sentence-transformers/all-mpnet-base-v2''\<rparr>"

definition keyed_config :: config where
  "keyed_config = example_config\<lparr>GROQ_API_KEY := Some (py ''gsk_example'')\<rparr>"

definition example_request :: chat_request where
  "example_request = \<lparr>conversation_id = py ''c1'', query = py ''Tell me about transaction accounts''\<rparr>"

definition second_request :: chat_request where
  "second_request = \<lparr>conversation_id = py ''c1'', query = py ''And savings accounts?''\<rparr>"

definition example_chunks :: "document list" where
  "example_chunks = example_splitter (load_documents example_corpus)"

definition example_store :: "pystr \<Rightarrow> nat faiss_store" where
  "example_store model =
     \<lparr>embedding_function = (model, False), dimension = 384,
      vectors = [example_embed (BUILD_EMBEDDING_MODEL, True) (py ''Everyday Account'')],
      docstore = example_chunks\<rparr>"

section \<open>Properties of the post-processing\<close>

lemmas py_string_simps =
  py_def NL_def py_strip_def is_space_def py_lower_def lower_cp_def startswith_def endswith_def

text \<open>
  Claim C8, at an answer with a Markdown bullet and a line of asterisks: the line
  \<open>* Smart Access\<close> is stripped before its asterisk is deleted, so it is kept with a
  leading blank, and the line \<open>***\<close> passes the emptiness test and is then emptied, so the
  result has a blank line. The claim's "no leading or trailing whitespace" and "no blank
  lines" both fail on this input.
\<close>

theorem clean_ai_response_bullet_and_rule:
  "clean_ai_response
     (py ''Products'' @ NL @ py ''* Smart Access'' @ NL @ py ''***'' @ NL @ py ''End'')
   = py ''Products'' @ NL @ py '' Smart Access'' @ NL @ NL @ py ''End''"
  by (simp add: clean_ai_response_def py_string_simps artifact_phrases_def strip_markdown_def)

section \<open>Properties of the link admission\<close>

lemma py_any_in_own_path_good: "py_any in_own_path good = Inl AttributeError"
  by (simp add: good_def in_own_path_def str_path_def)

lemma should_follow_parsed_cases:
  "should_follow_parsed p = Inr False \<or> should_follow_parsed p = Inl AttributeError"
  by (simp add: should_follow_parsed_def py_any_in_own_path_good)

lemma should_follow_never_True: "should_follow urlparse url \<noteq> Inr True"
proof (cases "urlparse url")
  case (Inl e)
  then show ?thesis by (simp add: should_follow_def)
next
  case (Inr p)
  then show ?thesis
    using should_follow_parsed_cases [of p] by (auto simp: should_follow_def)
qed

lemma enqueue_links_queue_unchanged:
  "fst (enqueue_links urlparse urljoin url hrefs visited n q) = q"
proof (induction hrefs arbitrary: n q)
  case Nil
  show ?case by simp
next
  case (Cons a as)
  show ?case
    using Cons.IH should_follow_never_True [of urlparse]
    by (auto split: sum.splits)
qed

text \<open>
  Claim C7, at the seed page \<open>https://www.commbank.com.au/personal/accounts.html\<close>, whose
  parse has scheme \<open>https\<close>, host \<open>www.commbank.com.au\<close> and path
  \<open>/personal/accounts.html\<close>: \<open>should_follow\<close> raises \<open>AttributeError\<close> instead of returning
  \<open>True\<close>, and the link loop, meeting that link on a page, leaves the queue as it was.
\<close>

theorem should_follow_accounts_raises:
  "should_follow_parsed
     \<lparr>scheme = py ''https'', hostname = Some (py ''www.commbank.com.au''),
      path = py ''/personal/accounts.html''\<rparr> = Inl AttributeError
   \<and> enqueue_links
       (\<lambda>u. Inr \<lparr>scheme = py ''https'', hostname = Some (py ''www.commbank.com.au''),
                 path = drop 27 u\<rparr>)
       (\<lambda>base href. Inr href) (py ''https://www.commbank.com.au/personal.html'')
       [py ''https://www.commbank.com.au/personal/accounts.html''] {} 0 []
     = ([], Some AttributeError)"
  by (simp add: should_follow_parsed_def should_follow_def py_any_in_own_path_good
      py_string_simps ROOT_DOMAIN_def)

section \<open>Properties of the content stores\<close>

lemma attempts_fetched:
  "attempts L url src now gs st =
     (case fetched gs of None \<Rightarrow> (False, st) | Some d \<Rightarrow> (True, store_pdf L url src now d st))"
  by (induction gs) (auto split: attempt.splits)

lemma download_pdf_downloaded:
  "download_pdf L head gets now url src st =
     (case downloaded head gets of
        None \<Rightarrow> (False, st)
      | Some d \<Rightarrow> (True, store_pdf L url src now d st))"
  by (simp add: download_pdf_def downloaded_def attempts_fetched)













lemma attempt_numbers: "[1 ..< RETRIES + 1] = [1, 2]"
  by (simp add: RETRIES_def upt_conv_Cons)

lemma example_downloaded:
  "downloaded (Head 200 NoLength) (\<lambda>n. Get 200 [Chunk (py ''%PDF-1.4'')]) = Some (py ''%PDF-1.4'')"
  unfolding downloaded_def attempt_numbers
  by (simp add: head_allows_def fetch_body_def MAX_FILE_SIZE_def py_def)




text \<open>
  A manifest file that exists and is empty gets no header: the first line written becomes
  the field names for the reader, the hash is never found, and the same bytes are written
  once per URL. The theorem above leaves this store out.
\<close>

lemma empty_manifest_file_two_writes:
  "written
     (snd (download_pdf example_lib (Head 200 NoLength) (\<lambda>n. Get 200 [Chunk (py ''%PDF-1.4'')])
             1700000001 (py ''https://www.commbank.com.au/content/dam/b/charges.pdf'')
             (py ''working_list'')
             (snd (download_pdf example_lib (Head 200 NoLength)
                     (\<lambda>n. Get 200 [Chunk (py ''%PDF-1.4'')]) 1700000000
                     (py ''https://www.commbank.com.au/content/dam/a/fees.pdf'')
                     (py ''working_list'') empty_manifest_file))))
   = [(py ''e16fa5d9_fees.pdf'', py ''%PDF-1.4''), (py ''e16fa5d9_charges.pdf'', py ''%PDF-1.4'')]"
  by (simp add: download_pdf_downloaded example_downloaded store_pdf_def manifest_has_sha_def
      empty_manifest_file_def append_manifest_row_def Let_def)
     (simp add: example_lib_def example_sha256_def safe_filename_from_url_def basename_def
      py_def endswith_def py_lower_def lower_cp_def)

section \<open>Properties of the index build and of the chat service\<close>






lemma get_embeddings_conversations:
  "g_conversations (snd (get_embeddings cfg W s)) = g_conversations s
   \<and> invoked (snd (get_embeddings cfg W s)) = invoked s"
  by (simp add: get_embeddings_def split: option.splits sum.splits)

lemma get_vectorstore_conversations:
  "g_conversations (snd (get_vectorstore cfg W s)) = g_conversations s
   \<and> invoked (snd (get_vectorstore cfg W s)) = invoked s"
  using get_embeddings_conversations [of cfg W s]
  by (auto simp: get_vectorstore_def split: option.splits sum.splits prod.splits)

lemma history_cong: "g_conversations s = g_conversations t \<Longrightarrow> history s cid = history t cid"
  by (simp add: history_def)

lemma apologies_differ: "NO_KEY_APOLOGY \<noteq> TROUBLE_APOLOGY"
  by (simp add: NO_KEY_APOLOGY_def TROUBLE_APOLOGY_def py_def)

lemma generate_no_key:
  "GROQ_API_KEY cfg = None \<or> GROQ_API_KEY cfg = Some [] \<Longrightarrow>
   generate_ai_response cfg W s cid q ctx = (NO_KEY_APOLOGY, s)"
  by (simp add: generate_ai_response_def)

lemma generate_conversations:
  "g_conversations (snd (generate_ai_response cfg W s cid q ctx)) = g_conversations s"
  by (simp add: generate_ai_response_def Let_def split: sum.splits)

text \<open>
  Claim C5. Without a credential (\<open>GROQ_API_KEY\<close> unset or empty) \<open>generate_ai_response\<close>
  returns the first apology and leaves the state as it is, so the model is not invoked,
  and a request whose index load and search succeed is answered with that apology. With a
  credential, a model call that raises gives the second apology, and the request is
  answered with it. The two apologies differ.
\<close>

theorem generate_ai_response_apologies:
  "(GROQ_API_KEY cfg = None \<or> GROQ_API_KEY cfg = Some [] \<longrightarrow>
      generate_ai_response cfg W s cid q ctx = (NO_KEY_APOLOGY, s)
      \<and> (get_vectorstore cfg W s0 = (Inr vs, s1)
          \<and> similarity_search (rag W) vs (query request) 8 = Inr docs
          \<longrightarrow> fst (chat cfg W request s0)
                = Inr \<lparr>answer = NO_KEY_APOLOGY, sources = map metadata docs\<rparr>
              \<and> invoked (snd (chat cfg W request s0)) = invoked s0))
   \<and> (GROQ_API_KEY cfg = Some k \<and> k \<noteq> []
      \<and> groq_invoke W (format_conversation_history s cid q ctx) = Inl e \<longrightarrow>
      fst (generate_ai_response cfg W s cid q ctx) = TROUBLE_APOLOGY)
   \<and> (GROQ_API_KEY cfg = Some k \<and> k \<noteq> []
      \<and> (\<forall>prompt. \<exists>e. groq_invoke W prompt = Inl e)
      \<and> get_vectorstore cfg W s0 = (Inr vs, s1)
      \<and> similarity_search (rag W) vs (query request) 8 = Inr docs
      \<longrightarrow> fst (chat cfg W request s0)
            = Inr \<lparr>answer = TROUBLE_APOLOGY, sources = map metadata docs\<rparr>)
   \<and> NO_KEY_APOLOGY \<noteq> TROUBLE_APOLOGY"
proof (intro conjI impI)
  assume k: "GROQ_API_KEY cfg = None \<or> GROQ_API_KEY cfg = Some []"
  show "generate_ai_response cfg W s cid q ctx = (NO_KEY_APOLOGY, s)"
    using k by (rule generate_no_key)
  assume a: "get_vectorstore cfg W s0 = (Inr vs, s1)
            \<and> similarity_search (rag W) vs (query request) 8 = Inr docs"
  have inv: "invoked s1 = invoked s0"
    using get_vectorstore_conversations [of cfg W s0] a by simp
  show "fst (chat cfg W request s0) = Inr \<lparr>answer = NO_KEY_APOLOGY, sources = map metadata docs\<rparr>"
    using a by (simp add: chat_def generate_no_key [OF k] Let_def)
  show "invoked (snd (chat cfg W request s0)) = invoked s0"
    using a inv by (simp add: chat_def generate_no_key [OF k] Let_def)
next
  assume "GROQ_API_KEY cfg = Some k \<and> k \<noteq> []
      \<and> groq_invoke W (format_conversation_history s cid q ctx) = Inl e"
  then show "fst (generate_ai_response cfg W s cid q ctx) = TROUBLE_APOLOGY"
    by (auto simp: generate_ai_response_def Let_def)
next
  assume k: "GROQ_API_KEY cfg = Some k \<and> k \<noteq> []
      \<and> (\<forall>prompt. \<exists>e. groq_invoke W prompt = Inl e)
      \<and> get_vectorstore cfg W s0 = (Inr vs, s1)
      \<and> similarity_search (rag W) vs (query request) 8 = Inr docs"
  let ?ctx = "py_join NL (map page_content docs)"
  obtain e where "groq_invoke W (format_conversation_history s1 (conversation_id request) (query request) ?ctx) = Inl e"
    using k by blast
  then have "fst (generate_ai_response cfg W s1 (conversation_id request) (query request) ?ctx) =
     TROUBLE_APOLOGY"
    using k by (auto simp: generate_ai_response_def Let_def)
  then show "fst (chat cfg W request s0) = Inr \<lparr>answer = TROUBLE_APOLOGY, sources = map metadata docs\<rparr>"
    using k by (auto simp: chat_def Let_def split: prod.splits)
next
  show "NO_KEY_APOLOGY \<noteq> TROUBLE_APOLOGY" by (rule apologies_differ)
qed

lemma chat_Inr:
  assumes "chat cfg W r s = (Inr resp, s')"
  shows "g_conversations s' =
           (g_conversations s)(conversation_id r \<mapsto> history s (conversation_id r) @ [\<lparr>user = query r, ai = answer resp\<rparr>])"
proof -
  obtain out s1 where gv: "get_vectorstore cfg W s = (out, s1)" by (cases "get_vectorstore cfg W s")
  have c1: "g_conversations s1 = g_conversations s"
    using get_vectorstore_conversations [of cfg W s] gv by simp
  from assms gv obtain vs where out: "out = Inr vs" by (cases out) (auto simp: chat_def)
  from assms gv out obtain docs where docs: "similarity_search (rag W) vs (query r) 8 = Inr docs"
    by (cases "similarity_search (rag W) vs (query r) 8") (auto simp: chat_def)
  let ?ctx = "py_join NL (map page_content docs)"
  obtain ans s2 where g: "generate_ai_response cfg W s1 (conversation_id r) (query r) ?ctx = (ans, s2)"
    by (cases "generate_ai_response cfg W s1 (conversation_id r) (query r) ?ctx")
  have c2: "g_conversations s2 = g_conversations s"
    using generate_conversations [of cfg W s1 "conversation_id r" "query r" ?ctx] g c1 by simp
  have h: "history s2 (conversation_id r) = history s (conversation_id r)"
    using c2 by (rule history_cong)
  from assms gv out docs g have "resp = \<lparr>answer = ans, sources = map metadata docs\<rparr>"
    and "s' = s2\<lparr>g_conversations := (g_conversations s2)(conversation_id r \<mapsto> history s2 (conversation_id r) @ [\<lparr>user = query r, ai = ans\<rparr>])\<rparr>"
    by (auto simp: chat_def Let_def)
  then show ?thesis by (simp add: c2 h)
qed

lemma chat_Inl:
  assumes "chat cfg W r s = (Inl x, s')"
  shows "g_conversations s' = g_conversations s"
proof -
  obtain out s1 where gv: "get_vectorstore cfg W s = (out, s1)" by (cases "get_vectorstore cfg W s")
  have c1: "g_conversations s1 = g_conversations s"
    using get_vectorstore_conversations [of cfg W s] gv by simp
  show ?thesis
    using assms gv c1
    by (auto simp: chat_def Let_def split: sum.splits prod.splits)
qed

lemma chat_history:
  assumes "chat cfg W r s = (out, s')"
  shows "history s' cid = history s cid @ answered cid [r] [out]"
    and "(g_conversations s' cid = None) = (g_conversations s cid = None \<and> answered cid [r] [out] = [])"
proof -
  show "history s' cid = history s cid @ answered cid [r] [out]"
  proof (cases out)
    case (Inl x)
    with assms chat_Inl [of cfg W r s x s'] show ?thesis by (auto simp: history_def)
  next
    case (Inr resp)
    with assms chat_Inr [of cfg W r s resp s'] show ?thesis by (auto simp: history_def)
  qed
  show "(g_conversations s' cid = None) = (g_conversations s cid = None \<and> answered cid [r] [out] = [])"
  proof (cases out)
    case (Inl x)
    with assms chat_Inl [of cfg W r s x s'] show ?thesis by auto
  next
    case (Inr resp)
    with assms chat_Inr [of cfg W r s resp s'] show ?thesis by auto
  qed
qed

lemma answered_Cons:
  "answered cid (r # rs) (out # outs) = answered cid [r] [out] @ answered cid rs outs"
  by (cases out) auto

lemma serve_history_outcome:
  assumes "serve cfg wrs s = (outs, s')"
  shows "length outs = length wrs
       \<and> history s' cid = history s cid @ answered cid (map snd wrs) outs
       \<and> (g_conversations s' cid = None)
           = (g_conversations s cid = None \<and> answered cid (map snd wrs) outs = [])"
  using assms
proof (induction wrs arbitrary: s outs s')
  case Nil
  then show ?case by simp
next
  case (Cons wr wrs)
  obtain W r where wr: "wr = (W, r)" by (cases wr)
  obtain out s1 where c: "chat cfg W r s = (out, s1)" by (cases "chat cfg W r s")
  obtain outs' s2 where sv: "serve cfg wrs s1 = (outs', s2)" by (cases "serve cfg wrs s1")
  from Cons.prems wr c sv have o: "outs = out # outs'" and s': "s' = s2" by auto
  from Cons.IH [OF sv] have ih: "length outs' = length wrs"
    "history s2 cid = history s1 cid @ answered cid (map snd wrs) outs'"
    "(g_conversations s2 cid = None) = (g_conversations s1 cid = None \<and> answered cid (map snd wrs) outs' = [])"
    by auto
  show ?case
    using ih chat_history [OF c, of cid] 
    by (simp add: o s' wr answered_Cons [of cid r "map snd wrs" out outs'])
qed

lemma example_documents:
  "load_documents example_corpus =
    [\<lparr>page_content = NL @ py ''Everyday Account'',
      metadata = [py ''source'' \<mapsto> MStr (py ''332477c367217259.txt''),
                  py ''url'' \<mapsto> MStr (py ''https://www.commbank.com.au/personal.html''),
                  py ''type'' \<mapsto> MStr (py ''webpage'')]\<rparr>]"
  by (simp add: example_corpus_def load_documents_def load_txt_def custom_text_load_def
      py_def NL_def startswith_def)

lemma example_chunks_eq:
  "example_chunks =
    [\<lparr>page_content = py ''Everyday Account'',
      metadata = [py ''source'' \<mapsto> MStr (py ''332477c367217259.txt''),
                  py ''url'' \<mapsto> MStr (py ''https://www.commbank.com.au/personal.html''),
                  py ''type'' \<mapsto> MStr (py ''webpage'')]\<rparr>]"
  by (simp add: example_chunks_def example_documents example_splitter_def)
     (simp add: py_def NL_def py_strip_def is_space_def)

lemma example_dims:
  "length (example_embed e t) = example_dim (fst e)"
  "example_dim BUILD_EMBEDDING_MODEL = 384"
  "example_dim (EMBEDDING_MODEL example_config) = 384"
  "example_dim (EMBEDDING_MODEL mpnet_config) = 768"
  by (simp_all add: example_embed_def example_dim_def BUILD_EMBEDDING_MODEL_def
      example_config_def mpnet_config_def py_def)

lemma faiss_from_documents_same_dimension:
  assumes "chunks \<noteq> []" "\<And>t. length (embed_text e t) = d"
  shows "faiss_from_documents embed_text chunks e =
           Inr \<lparr>embedding_function = e, dimension = d,
                 vectors = map (\<lambda>d. embed_text e (page_content d)) chunks, docstore = chunks\<rparr>"
  using assms by (cases chunks) (simp_all add: faiss_from_documents_def list_all_iff)

lemma build_persists_vectors_only:
  assumes "load_documents c \<noteq> []" "splitter (load_documents c) \<noteq> []"
      and "\<And>t. length (embed_text (BUILD_EMBEDDING_MODEL, True) t) = d"
  shows "snd (create_embeddings (faiss_lib splitter embed_text nearest) c dir) =
     Some (Some (d, map (\<lambda>x. embed_text (BUILD_EMBEDDING_MODEL, True) (page_content x))
                      (splitter (load_documents c)),
                 splitter (load_documents c)))"
proof -
  have f: "faiss_from_documents embed_text (splitter (load_documents c))
             (BUILD_EMBEDDING_MODEL, True) =
           Inr \<lparr>embedding_function = (BUILD_EMBEDDING_MODEL, True), dimension = d,
                 vectors = map (\<lambda>x. embed_text (BUILD_EMBEDDING_MODEL, True) (page_content x))
                             (splitter (load_documents c)),
                 docstore = splitter (load_documents c)\<rparr>"
    using assms(2,3) by (rule faiss_from_documents_same_dimension)
  show ?thesis
    using assms(1)
    by (simp add: create_embeddings_def Let_def chunk_documents_def faiss_lib_def f
        split: sum.splits)
qed

lemma example_index:
  "index_dir example_world =
     Some (Some (384, [example_embed (BUILD_EMBEDDING_MODEL, True) (py ''Everyday Account'')],
                 example_chunks))"
proof -
  have d: "load_documents example_corpus \<noteq> []" "example_splitter (load_documents example_corpus) \<noteq> []"
    using example_chunks_eq by (simp_all add: example_documents example_chunks_def)
  have "index_dir example_world =
          Some (Some (384, map (\<lambda>x. example_embed (BUILD_EMBEDDING_MODEL, True) (page_content x))
                             example_chunks, example_chunks))"
    unfolding example_world_def example_faiss_def example_chunks_def
    using build_persists_vectors_only [of example_corpus example_splitter example_embed 384
        example_nearest None, OF d]
    by (simp add: example_dims)
  then show ?thesis by (simp add: example_chunks_eq)
qed

lemma example_get_vectorstore:
  "get_vectorstore cfg example_world initial_service =
     (Inr (example_store (EMBEDDING_MODEL cfg)),
      initial_service\<lparr>g_embeddings := Some (EMBEDDING_MODEL cfg, False),
                       g_vectorstore := Some (example_store (EMBEDDING_MODEL cfg))\<rparr>)"
  by (simp add: get_vectorstore_def get_embeddings_def initial_service_def example_index
      example_store_def)
     (simp add: example_world_def example_faiss_def faiss_lib_def)

lemma example_search:
  "similarity_search (rag example_world) (example_store (EMBEDDING_MODEL example_config)) q 8
     = Inr example_chunks"
  by (simp add: example_world_def example_faiss_def faiss_lib_def faiss_search_def
      example_store_def example_dims example_nearest_def Let_def)
     (simp add: example_chunks_eq)

lemma example_search_mpnet:
  "similarity_search (rag example_world) (example_store (EMBEDDING_MODEL mpnet_config)) q 8
     = Inl (Raised (py ''AssertionError''))"
  by (simp add: example_world_def example_faiss_def faiss_lib_def faiss_search_def
      example_store_def example_dims Let_def)


lemma startswith_append: "startswith (a @ b) a"
  by (simp add: startswith_def)

lemma chat_InrD:
  assumes "chat cfg W r s = (Inr resp, s')"
  shows "\<exists>vs s1 docs. get_vectorstore cfg W s = (Inr vs, s1)
       \<and> similarity_search (rag W) vs (query r) 8 = Inr docs
       \<and> answer resp = fst (generate_ai_response cfg W s1 (conversation_id r) (query r)
                               (py_join NL (map page_content docs)))"
  using assms
  by (auto simp: chat_def Let_def split: prod.splits sum.splits)

text \<open>
  Claim C10: a request that is answered appends exactly one turn, the query with the
  answer of the response, to the history of its conversation and changes no other
  conversation. Without a credential the recorded answer is the first apology; with a
  credential and a model call that raises it is the second. The prompt of the next request
  on the conversation starts with the history that ends with this turn.
\<close>

theorem chat_appends_answer:
  assumes "chat cfg W r s = (Inr resp, s')"
  shows "g_conversations s' =
           (g_conversations s)
             (conversation_id r \<mapsto>
                history s (conversation_id r) @ [\<lparr>user = query r, ai = answer resp\<rparr>])
       \<and> (GROQ_API_KEY cfg = None \<or> GROQ_API_KEY cfg = Some [] \<longrightarrow> answer resp = NO_KEY_APOLOGY)
       \<and> (GROQ_API_KEY cfg = Some k \<and> k \<noteq> [] \<and> (\<forall>prompt. \<exists>e. groq_invoke W prompt = Inl e)
            \<longrightarrow> answer resp = TROUBLE_APOLOGY)
       \<and> startswith (format_conversation_history s' (conversation_id r) q2 ctx2)
            (py_join NL (map render_turn
               (history s (conversation_id r) @ [\<lparr>user = query r, ai = answer resp\<rparr>])))"
proof (intro conjI impI)
  show m: "g_conversations s' =
           (g_conversations s)
             (conversation_id r \<mapsto>
                history s (conversation_id r) @ [\<lparr>user = query r, ai = answer resp\<rparr>])"
    using assms by (rule chat_Inr)
  from chat_InrD [OF assms] obtain vs s1 docs where
    gv: "get_vectorstore cfg W s = (Inr vs, s1)"
    and sr: "similarity_search (rag W) vs (query r) 8 = Inr docs"
    and a: "answer resp = fst (generate_ai_response cfg W s1 (conversation_id r) (query r)
                               (py_join NL (map page_content docs)))"
    by blast
  show "answer resp = NO_KEY_APOLOGY" if "GROQ_API_KEY cfg = None \<or> GROQ_API_KEY cfg = Some []"
    using a generate_no_key [OF that, of W s1 "conversation_id r" "query r"
        "py_join NL (map page_content docs)"] by simp
  show "answer resp = TROUBLE_APOLOGY"
    if k: "GROQ_API_KEY cfg = Some k \<and> k \<noteq> [] \<and> (\<forall>prompt. \<exists>e. groq_invoke W prompt = Inl e)"
  proof -
    let ?ctx = "py_join NL (map page_content docs)"
    obtain e where "groq_invoke W (format_conversation_history s1 (conversation_id r) (query r) ?ctx) = Inl e"
      using k by blast
    then show ?thesis
      using a k by (auto simp: generate_ai_response_def Let_def)
  qed
  have "history s' (conversation_id r) =
          history s (conversation_id r) @ [\<lparr>user = query r, ai = answer resp\<rparr>]"
    by (simp add: history_def m)
  then show "startswith (format_conversation_history s' (conversation_id r) q2 ctx2)
            (py_join NL (map render_turn
               (history s (conversation_id r) @ [\<lparr>user = query r, ai = answer resp\<rparr>])))"
    by (simp add: format_conversation_history_def Let_def startswith_append)
qed

lemma example_chat:
  "fst (chat example_config example_world example_request initial_service)
     = Inr \<lparr>answer = NO_KEY_APOLOGY, sources = map metadata example_chunks\<rparr>"
  by (simp add: chat_def example_get_vectorstore example_search generate_ai_response_def Let_def)
     (simp add: example_config_def)

text \<open>The theorem at the first request of a conversation, served without a credential.\<close>

theorem chat_appends_answer_witness:
  "g_conversations (snd (chat example_config example_world example_request initial_service)) =
     [py ''c1'' \<mapsto> [\<lparr>user = py ''Tell me about transaction accounts'', ai = NO_KEY_APOLOGY\<rparr>]]
   \<and> startswith
       (format_conversation_history
          (snd (chat example_config example_world example_request initial_service))
          (py ''c1'') (py ''And savings accounts?'') [])
       (py ''User: '' @ py ''Tell me about transaction accounts'' @ NL @ py ''AI: ''
        @ NO_KEY_APOLOGY)"
proof -
  let ?c = "chat example_config example_world example_request initial_service"
  have c: "?c = (Inr \<lparr>answer = NO_KEY_APOLOGY, sources = map metadata example_chunks\<rparr>, snd ?c)"
    using example_chat by (metis prod.collapse)
  have h: "history initial_service (py ''c1'') = []" "g_conversations initial_service = Map.empty"
    by (simp_all add: history_def initial_service_def)
  show ?thesis
    using chat_appends_answer [OF c, of "py ''gsk''" "py ''And savings accounts?''" "[]"]
    by (simp add: example_request_def h render_turn_def)
qed

lemma keyed_config_simps:
  "GROQ_API_KEY keyed_config = Some (py ''gsk_example'')"
  "EMBEDDING_MODEL keyed_config = EMBEDDING_MODEL example_config"
  "GROQ_API_KEY example_config = None"
  by (simp_all add: keyed_config_def example_config_def)

lemma example_invoke: "\<forall>prompt. \<exists>e. groq_invoke example_world prompt = Inl e"
  by (simp add: example_world_def)

text \<open>The theorem at a service without a credential, and at one whose model call raises.\<close>

theorem generate_ai_response_apologies_witness:
  "generate_ai_response example_config example_world initial_service (py ''c1'') (py ''Hello'') []
     = (NO_KEY_APOLOGY, initial_service)
   \<and> fst (chat example_config example_world example_request initial_service)
       = Inr \<lparr>answer = NO_KEY_APOLOGY, sources = map metadata example_chunks\<rparr>
   \<and> invoked (snd (chat example_config example_world example_request initial_service)) = []
   \<and> fst (generate_ai_response keyed_config example_world initial_service (py ''c1'') (py ''Hello'') [])
       = TROUBLE_APOLOGY
   \<and> fst (chat keyed_config example_world example_request initial_service)
       = Inr \<lparr>answer = TROUBLE_APOLOGY, sources = map metadata example_chunks\<rparr>"
proof -
  have i: "invoked initial_service = []" by (simp add: initial_service_def)
  have g: "groq_invoke example_world
             (format_conversation_history initial_service (py ''c1'') (py ''Hello'') [])
           = Inl (Raised (py ''connection error''))"
    by (simp add: example_world_def)
  have n: "py ''gsk_example'' \<noteq> []" by (simp add: py_def)
  show ?thesis
    using generate_ai_response_apologies
        [where cfg = example_config and W = example_world and s = initial_service
           and cid = "py ''c1''" and q = "py ''Hello''" and ctx = "[]"
           and ?s0.0 = initial_service and request = example_request
           and vs = "example_store (EMBEDDING_MODEL example_config)"
           and docs = example_chunks
           and ?s1.0 = "initial_service\<lparr>g_embeddings := Some (EMBEDDING_MODEL example_config, False),
                       g_vectorstore := Some (example_store (EMBEDDING_MODEL example_config))\<rparr>"]
      generate_ai_response_apologies
        [where cfg = keyed_config and W = example_world and s = initial_service
           and cid = "py ''c1''" and q = "py ''Hello''" and ctx = "[]"
           and ?s0.0 = initial_service and request = example_request
           and k = "py ''gsk_example''" and e = "Raised (py ''connection error'')"
           and vs = "example_store (EMBEDDING_MODEL keyed_config)"
           and docs = example_chunks
           and ?s1.0 = "initial_service\<lparr>g_embeddings := Some (EMBEDDING_MODEL keyed_config, False),
                       g_vectorstore := Some (example_store (EMBEDDING_MODEL keyed_config))\<rparr>"]
    by (simp add: example_get_vectorstore example_search keyed_config_simps example_invoke i g n)
qed

text \<open>
  Claim C6: after any sequence of requests served one after the other, every request gave
  one outcome, and the history of a conversation is its history before followed by the
  turns of the answered requests on it, in the order of arrival: as many turns are added
  as requests on it were answered. The conversation is absent afterwards exactly when it
  was absent before and no request on it was answered.
\<close>

theorem serve_history:
  "length (fst (serve cfg wrs s)) = length wrs
   \<and> history (snd (serve cfg wrs s)) cid
       = history s cid @ answered cid (map snd wrs) (fst (serve cfg wrs s))
   \<and> (g_conversations (snd (serve cfg wrs s)) cid = None)
       = (g_conversations s cid = None \<and> answered cid (map snd wrs) (fst (serve cfg wrs s)) = [])"
  using serve_history_outcome [of cfg wrs s "fst (serve cfg wrs s)" "snd (serve cfg wrs s)" cid]
  by simp

lemma cached_get_vectorstore:
  "g_vectorstore s = Some vs \<Longrightarrow> get_vectorstore cfg W s = (Inr vs, s)"
  by (simp add: get_vectorstore_def)

lemma example_first_chat:
  "chat example_config example_world example_request initial_service =
     (Inr \<lparr>answer = NO_KEY_APOLOGY, sources = map metadata example_chunks\<rparr>,
      initial_service
        \<lparr>g_embeddings := Some (EMBEDDING_MODEL example_config, False),
         g_vectorstore := Some (example_store (EMBEDDING_MODEL example_config)),
         g_conversations :=
           [py ''c1'' \<mapsto> [\<lparr>user = py ''Tell me about transaction accounts'',
                               ai = NO_KEY_APOLOGY\<rparr>]]\<rparr>)"
  by (simp add: chat_def example_get_vectorstore example_search generate_ai_response_def Let_def
      keyed_config_simps history_def)
     (simp add: initial_service_def example_request_def)

lemma example_serve:
  "fst (serve example_config [(example_world, example_request), (example_world, second_request)]
          initial_service)
   = [Inr \<lparr>answer = NO_KEY_APOLOGY, sources = map metadata example_chunks\<rparr>,
      Inr \<lparr>answer = NO_KEY_APOLOGY, sources = map metadata example_chunks\<rparr>]"
  by (simp add: example_first_chat)
     (simp add: chat_def cached_get_vectorstore example_search generate_ai_response_def Let_def
      keyed_config_simps)

text \<open>The theorem at two answered requests on one conversation of a new service.\<close>

theorem serve_history_witness:
  "history
     (snd (serve example_config [(example_world, example_request), (example_world, second_request)]
             initial_service))
     (py ''c1'')
   = [\<lparr>user = py ''Tell me about transaction accounts'', ai = NO_KEY_APOLOGY\<rparr>,
      \<lparr>user = py ''And savings accounts?'', ai = NO_KEY_APOLOGY\<rparr>]"
proof -
  let ?wrs = "[(example_world, example_request), (example_world, second_request)]"
  have "history (snd (serve example_config ?wrs initial_service)) (py ''c1'')
        = history (initial_service :: (pystr \<times> bool, nat faiss_store) service) (py ''c1'')
          @ answered (py ''c1'') (map snd ?wrs) (fst (serve example_config ?wrs initial_service))"
    by (rule serve_history [of example_config ?wrs initial_service "py ''c1''",
          THEN conjunct2, THEN conjunct1])
  also have "\<dots> = [\<lparr>user = py ''Tell me about transaction accounts'', ai = NO_KEY_APOLOGY\<rparr>,
      \<lparr>user = py ''And savings accounts?'', ai = NO_KEY_APOLOGY\<rparr>]"
    unfolding example_serve
    by (simp add: history_def initial_service_def example_request_def second_request_def)
  finally show ?thesis .
qed



end
